theory Spec2Isabelle
  imports Main "HOL-Library.Word"
begin

section \<open>JavaScript values\<close>

text \<open>
  A JavaScript number is an IEEE double. The script \<^verbatim>\<open>src/js/script.ts\<close> does
  no arithmetic on numbers: it tests \<^verbatim>\<open>typeof\<close> and prints them. The safe
  integers, those of a magnitude below \<open>2 ^ 53\<close>, are kept exactly (the negative
  zero is \<open>SafeInteger True 0\<close>): each of them is a double, and
  \<^verbatim>\<open>toString\<close> gives its decimal numeral. Every other double (a fraction, an
  integer from \<open>2 ^ 53\<close> on, an infinity, NaN) is kept as the string that
  \<^verbatim>\<open>Number.prototype.toString\<close> returns for it, which tells one such double
  from another: \<^verbatim>\<open>1.5\<close> is \<open>OtherNumber ''1.5''\<close>, the double
  \<open>2 ^ 63\<close> is \<open>OtherNumber ''9223372036854776000''\<close>. Producing that
  string is the engine's floating-point digit generation, which is not modelled.
\<close>

datatype number =
    SafeInteger (negative: bool) (magnitude: "53 word")
  | OtherNumber (printed: string)

text \<open>
  The values the script can meet: the primitives, arrays and plain objects (a table of
  own properties, the first entry of a name being the property), and instances of
  \<^verbatim>\<open>Error\<close> or of a subclass, with their \<^verbatim>\<open>name\<close> and
  \<^verbatim>\<open>message\<close>. Functions, symbols and bigints are left out.
\<close>

datatype jsvalue =
    JUndefined
  | JNull
  | JBoolean bool
  | JNumber number
  | JString string
  | JArray "jsvalue list"
  | JObject "(string \<times> jsvalue) list"
  | JError (name: string) (message: string)

text \<open>An awaited promise: it never settles, it rejects with a reason, or it fulfils.\<close>

datatype 'a promise =
    Pending
  | Rejected jsvalue
  | Fulfilled 'a

definition TypeError :: "string \<Rightarrow> jsvalue" where
  "TypeError msg = JError ''TypeError'' msg"

subsection \<open>Number to string\<close>

definition digit_char :: "nat \<Rightarrow> char" where
  "digit_char d = ''0123456789'' ! d"

fun digits :: "nat \<Rightarrow> nat list" where
  "digits n = (if n < 10 then [n] else digits (n div 10) @ [n mod 10])"

declare digits.simps [simp del]

text \<open>The decimal numeral of a natural number, most significant digit first.\<close>

definition decimal :: "nat \<Rightarrow> string" where
  "decimal n = map digit_char (digits n)"

text \<open>
  \<^verbatim>\<open>Number.prototype.toString()\<close> with radix 10 (ECMA-262, Number::toString):
  both zeros print as \<^verbatim>\<open>0\<close>, a negative number as \<^verbatim>\<open>-\<close> and the
  string of its magnitude, and a safe integer as its digits, with neither a point nor an
  exponent.
\<close>

definition Number_toString :: "number \<Rightarrow> string" where
  "Number_toString x =
    (case x of
       SafeInteger neg m \<Rightarrow> (if neg \<and> m \<noteq> 0 then ''-'' else []) @ decimal (unat m)
     | OtherNumber s \<Rightarrow> s)"

text \<open>
  The number that \<^verbatim>\<open>response.status\<close> reads: an unsigned short is a safe
  integer.
\<close>

definition numberOfStatus :: "16 word \<Rightarrow> number" where
  "numberOfStatus st = SafeInteger False (ucast st)"

subsection \<open>Operators\<close>

fun typeof :: "jsvalue \<Rightarrow> string" where
  "typeof JUndefined = ''undefined''"
| "typeof JNull = ''object''"
| "typeof (JBoolean b) = ''boolean''"
| "typeof (JNumber x) = ''number''"
| "typeof (JString s) = ''string''"
| "typeof (JArray xs) = ''object''"
| "typeof (JObject ps) = ''object''"
| "typeof (JError n m) = ''object''"

text \<open>ToBoolean, as \<^verbatim>\<open>!x\<close>, \<^verbatim>\<open>x && y\<close> and \<^verbatim>\<open>x ? a : b\<close> apply it.\<close>

fun truthy :: "jsvalue \<Rightarrow> bool" where
  "truthy JUndefined = False"
| "truthy JNull = False"
| "truthy (JBoolean b) = b"
| "truthy (JNumber (SafeInteger neg m)) = (m \<noteq> 0)"
| "truthy (JNumber (OtherNumber s)) = (s \<noteq> ''NaN'')"
| "truthy (JString s) = (s \<noteq> [])"
| "truthy (JArray xs) = True"
| "truthy (JObject ps) = True"
| "truthy (JError n m) = True"

fun instanceofError :: "jsvalue \<Rightarrow> bool" where
  "instanceofError (JError n m) = True"
| "instanceofError v = False"

text \<open>
  \<^verbatim>\<open>v.p\<close> for the names the script reads (\<^verbatim>\<open>remaining\<close>,
  \<^verbatim>\<open>shuffled\<close>, \<^verbatim>\<open>message\<close>), none of which the built-in prototypes
  of Object, Array, String, Number and Boolean define. Reading a property of
  \<^verbatim>\<open>null\<close> or \<^verbatim>\<open>undefined\<close> throws a TypeError (the wording is V8's).
\<close>

definition cannotRead :: "string \<Rightarrow> string \<Rightarrow> jsvalue" where
  "cannotRead what p =
     TypeError (''Cannot read properties of '' @ what @ '' (reading '' @ [CHR 0x27] @ p @ [CHR 0x27] @ '')'')"

fun getProperty :: "jsvalue \<Rightarrow> string \<Rightarrow> jsvalue + jsvalue" where
  "getProperty JUndefined p = Inl (cannotRead ''undefined'' p)"
| "getProperty JNull p = Inl (cannotRead ''null'' p)"
| "getProperty (JObject ps) p = Inr (case map_of ps p of None \<Rightarrow> JUndefined | Some v \<Rightarrow> v)"
| "getProperty (JError n m) p =
     Inr (if p = ''message'' then JString m else if p = ''name'' then JString n else JUndefined)"
| "getProperty v p = Inr JUndefined"

text \<open>\<^verbatim>\<open>p in v\<close>; the script evaluates it on non-null objects only.\<close>

fun hasProperty :: "string \<Rightarrow> jsvalue \<Rightarrow> bool" where
  "hasProperty p (JObject ps) = (p \<in> fst ` set ps)"
| "hasProperty p (JError n m) = (p = ''message'' \<or> p = ''name'')"
| "hasProperty p v = False"

fun intercalate :: "string \<Rightarrow> string list \<Rightarrow> string" where
  "intercalate sep [] = []"
| "intercalate sep [s] = s"
| "intercalate sep (s # t # ss) = s @ sep @ intercalate sep (t # ss)"

text \<open>
  \<^verbatim>\<open>String(v)\<close>. An array joins its elements with commas, \<^verbatim>\<open>null\<close> and
  \<^verbatim>\<open>undefined\<close> elements as the empty string. A plain object is
  \<^verbatim>\<open>[object Object]\<close> unless an own property \<^verbatim>\<open>toString\<close> shadows the
  inherited method: the property is data, not callable, \<^verbatim>\<open>valueOf\<close> yields no
  primitive, and the conversion throws a TypeError.
\<close>

fun js_String :: "jsvalue \<Rightarrow> jsvalue + string"
  and joinElements :: "jsvalue list \<Rightarrow> jsvalue + string list" where
  "js_String JUndefined = Inr ''undefined''"
| "js_String JNull = Inr ''null''"
| "js_String (JBoolean b) = Inr (if b then ''true'' else ''false'')"
| "js_String (JNumber x) = Inr (Number_toString x)"
| "js_String (JString s) = Inr s"
| "js_String (JArray xs) =
     (case joinElements xs of Inl e \<Rightarrow> Inl e | Inr ss \<Rightarrow> Inr (intercalate '','' ss))"
| "js_String (JObject ps) =
     (if ''toString'' \<in> fst ` set ps then Inl (TypeError ''Cannot convert object to primitive value'')
      else Inr ''[object Object]'')"
| "js_String (JError n m) = Inr (if n = [] then m else if m = [] then n else n @ '': '' @ m)"
| "joinElements [] = Inr []"
| "joinElements (x # xs) =
     (case (if x = JUndefined \<or> x = JNull then Inr [] else js_String x) of
        Inl e \<Rightarrow> Inl e
      | Inr s \<Rightarrow> (case joinElements xs of Inl e \<Rightarrow> Inl e | Inr ss \<Rightarrow> Inr (s # ss)))"

text \<open>
  \<^verbatim>\<open>v.toString()\<close>: the script calls it on a value whose \<^verbatim>\<open>typeof\<close> is
  \<^verbatim>\<open>number\<close>.
\<close>

fun toStringMethod :: "jsvalue \<Rightarrow> jsvalue + string" where
  "toStringMethod JUndefined = Inl (cannotRead ''undefined'' ''toString'')"
| "toStringMethod JNull = Inl (cannotRead ''null'' ''toString'')"
| "toStringMethod (JNumber x) = Inr (Number_toString x)"
| "toStringMethod v = js_String v"

section \<open>The page and the network\<close>

text \<open>
  The page is a store of element objects. An element is named by its identifier (an
  element without one, by any other name), and the document maps a name to the element,
  as \<^verbatim>\<open>document.getElementById\<close> does for the names the script looks up
  (\<open>None\<close> is \<^verbatim>\<open>null\<close>). An element holds the attributes the script
  writes (the tokens of \<^verbatim>\<open>classList\<close>, \<^verbatim>\<open>disabled\<close>,
  \<^verbatim>\<open>style.display\<close>) and its child nodes: pieces of text and references to
  child elements. An element removed from its parent stays in the store, as the object
  that a handle of the script still refers to.
\<close>

datatype node =
    TextNode string
  | ElementNode string

record element =
  classList :: "string list"
  disabled :: bool
  display :: string
  childNodes :: "node list"

type_synonym document = "string \<Rightarrow> element option"

text \<open>
  The getter \<^verbatim>\<open>textContent\<close>: the texts below a node, in document order. The
  store does not say that the references form a tree, so the descent is bounded: with
  the bound \<open>n\<close> it follows at most \<open>n\<close> element references in a row, and it
  is \<open>None\<close> where the bound or a dangling reference stops it. A result
  \<open>Some s\<close> is the text of the node, under every greater bound too.
\<close>

fun textOf :: "nat \<Rightarrow> document \<Rightarrow> node \<Rightarrow> string option" where
  "textOf n d (TextNode s) = Some s"
| "textOf 0 d (ElementNode i) = None"
| "textOf (Suc n) d (ElementNode i) =
     (case d i of
        None \<Rightarrow> None
      | Some e \<Rightarrow> map_option concat (those (map (textOf n d) (childNodes e))))"

definition textContent :: "nat \<Rightarrow> document \<Rightarrow> string \<Rightarrow> string option" where
  "textContent n d i = textOf n d (ElementNode i)"

text \<open>The names of the elements met by that descent.\<close>

fun reached :: "nat \<Rightarrow> document \<Rightarrow> node \<Rightarrow> string set" where
  "reached n d (TextNode s) = {}"
| "reached 0 d (ElementNode i) = {i}"
| "reached (Suc n) d (ElementNode i) =
     insert i (case d i of
                 None \<Rightarrow> {}
               | Some e \<Rightarrow> \<Union> (set (map (reached n d) (childNodes e))))"

text \<open>
  The setter \<^verbatim>\<open>textContent\<close> replaces the children of the element by one
  piece of text, or by nothing when the string is empty.
\<close>

definition textOnly :: "string \<Rightarrow> node list" where
  "textOnly s = (if s = [] then [] else [TextNode s])"

text \<open>
  What the script does to the outside, one constructor for each kind of statement: the
  console, the element mutations (the element is named by its identifier) and the
  request that \<^verbatim>\<open>fetch(url)\<close> issues, a GET as no options are passed.
\<close>

datatype effect =
    ConsoleError "jsvalue list"
  | ConsoleLog "jsvalue list"
  | ClassListAdd string string
  | ClassListRemove string string
  | SetDisabled string bool
  | SetTextContent string string
  | SetStyleDisplay string string
  | Fetch string

text \<open>
  A \<^verbatim>\<open>Response\<close>: its status (an unsigned short in the Fetch standard) and what
  awaiting \<^verbatim>\<open>response.json()\<close> gives. \<^verbatim>\<open>response.ok\<close> is the
  standard's getter: the status is in the range 200 to 299.
\<close>

record response =
  status :: "16 word"
  json :: "jsvalue promise"

definition ok :: "response \<Rightarrow> bool" where
  "ok r = (200 \<le> status r \<and> status r \<le> 299)"

text \<open>
  The surroundings of one call: the page, and what awaiting \<^verbatim>\<open>fetch(url)\<close>
  gives. Nothing else touches the page while the call is suspended.
\<close>

record environment =
  document :: document
  fetch :: "string \<Rightarrow> response promise"

definition updateElement :: "string \<Rightarrow> (element \<Rightarrow> element) \<Rightarrow> document \<Rightarrow> document" where
  "updateElement i f d = (case d i of None \<Rightarrow> d | Some e \<Rightarrow> d(i \<mapsto> f e))"

fun applyEffect :: "effect \<Rightarrow> document \<Rightarrow> document" where
  "applyEffect (ConsoleError args) d = d"
| "applyEffect (ConsoleLog args) d = d"
| "applyEffect (ClassListAdd i t) d =
     updateElement i (\<lambda>e. e\<lparr>classList := (if t \<in> set (classList e) then classList e else classList e @ [t])\<rparr>) d"
| "applyEffect (ClassListRemove i t) d =
     updateElement i (\<lambda>e. e\<lparr>classList := removeAll t (classList e)\<rparr>) d"
| "applyEffect (SetDisabled i b) d = updateElement i (\<lambda>e. e\<lparr>disabled := b\<rparr>) d"
| "applyEffect (SetTextContent i s) d = updateElement i (\<lambda>e. e\<lparr>childNodes := textOnly s\<rparr>) d"
| "applyEffect (SetStyleDisplay i s) d = updateElement i (\<lambda>e. e\<lparr>display := s\<rparr>) d"
| "applyEffect (Fetch url) d = d"

definition run :: "effect list \<Rightarrow> document \<Rightarrow> document" where
  "run effects d = fold applyEffect effects d"

section \<open>fetchDeckData\<close>

definition deckUrl :: string where
  "deckUrl = ''https://www.deckofcardsapi.com/api/deck/new/shuffle/?deck_count=1''"

text \<open>Lines 31 to 34: the loading state.\<close>

definition showLoading :: "effect list" where
  "showLoading =
     [ClassListAdd ''deck-card'' ''loading'',
      SetDisabled ''refresh-btn'' True,
      SetTextContent ''refresh-btn'' ''Loading...'',
      SetStyleDisplay ''error-message'' ''none'']"

text \<open>Lines 42 to 45: the object thrown for a response that is not ok.\<close>

definition apiError :: "16 word \<Rightarrow> jsvalue" where
  "apiError st =
     JObject [(''message'', JString (''HTTP error! status: '' @ Number_toString (numberOfStatus st))),
              (''status'', JNumber (numberOfStatus st))]"

text \<open>Lines 53 to 62: the validation of the parsed body and the rendering.\<close>

definition renderData :: "jsvalue \<Rightarrow> effect list \<times> unit promise" where
  "renderData data =
     (case getProperty data ''remaining'' of
        Inl e \<Rightarrow> ([], Rejected e)
      | Inr remaining \<Rightarrow>
          if typeof remaining \<noteq> ''number'' then ([], Rejected (JError ''Error'' ''Invalid API response structure''))
          else
            (case getProperty data ''shuffled'' of
               Inl e \<Rightarrow> ([], Rejected e)
             | Inr shuffled \<Rightarrow>
                 if typeof shuffled \<noteq> ''boolean'' then ([], Rejected (JError ''Error'' ''Invalid API response structure''))
                 else
                   (case toStringMethod remaining of
                      Inl e \<Rightarrow> ([], Rejected e)
                    | Inr text \<Rightarrow>
                        ([SetTextContent ''remaining-cards'' text,
                          SetTextContent ''shuffle-status'' (if truthy shuffled then ''Yes'' else ''No''),
                          ConsoleLog [JString ''Full API response:'', data]],
                         Fulfilled ()))))"

text \<open>Lines 38 to 62: the body of \<^verbatim>\<open>try\<close>.\<close>

definition tryBlock :: "environment \<Rightarrow> effect list \<times> unit promise" where
  "tryBlock env =
     (case fetch env deckUrl of
        Pending \<Rightarrow> ([Fetch deckUrl], Pending)
      | Rejected reason \<Rightarrow> ([Fetch deckUrl], Rejected reason)
      | Fulfilled response \<Rightarrow>
          if \<not> ok response then ([Fetch deckUrl], Rejected (apiError (status response)))
          else
            (case json response of
               Pending \<Rightarrow> ([Fetch deckUrl], Pending)
             | Rejected reason \<Rightarrow> ([Fetch deckUrl], Rejected reason)
             | Fulfilled data \<Rightarrow> (Fetch deckUrl # fst (renderData data), snd (renderData data))))"

text \<open>
  Lines 68 to 76: the value of \<^verbatim>\<open>errorText\<close>. The variable is typed as a
  string; what it holds at run time is a value.
\<close>

definition errorTextOf :: "jsvalue \<Rightarrow> jsvalue + jsvalue" where
  "errorTextOf error =
     (if instanceofError error then getProperty error ''message''
      else if typeof error = ''string'' then Inr error
      else if truthy error \<and> typeof error = ''object'' \<and> hasProperty ''message'' error then
        (case getProperty error ''message'' of
           Inl e \<Rightarrow> Inl e
         | Inr m \<Rightarrow> (case js_String m of Inl e \<Rightarrow> Inl e | Inr s \<Rightarrow> Inr (JString s)))
      else Inr (JString ''An unknown error occurred''))"

text \<open>
  Lines 65 to 83: the body of \<^verbatim>\<open>catch\<close>. A conversion that throws leaves the
  block where it stands; the template literal of line 82 converts \<^verbatim>\<open>errorText\<close>
  once more.
\<close>

definition catchBlock :: "jsvalue \<Rightarrow> effect list \<times> unit promise" where
  "catchBlock error =
     (case errorTextOf error of
        Inl e \<Rightarrow> ([ConsoleError [JString ''Error fetching deck data:'', error]], Rejected e)
      | Inr errorText \<Rightarrow>
          (case js_String errorText of
             Inl e \<Rightarrow>
               ([ConsoleError [JString ''Error fetching deck data:'', error],
                 SetTextContent ''remaining-cards'' ''Error'',
                 SetTextContent ''shuffle-status'' ''Error''],
                Rejected e)
           | Inr s \<Rightarrow>
               ([ConsoleError [JString ''Error fetching deck data:'', error],
                 SetTextContent ''remaining-cards'' ''Error'',
                 SetTextContent ''shuffle-status'' ''Error'',
                 SetTextContent ''error-message'' (''Failed to load deck data: '' @ s),
                 SetStyleDisplay ''error-message'' ''block''],
                Fulfilled ())))"

text \<open>Lines 87 to 89: the body of \<^verbatim>\<open>finally\<close>.\<close>

definition finallyBlock :: "effect list" where
  "finallyBlock =
     [ClassListRemove ''deck-card'' ''loading'',
      SetDisabled ''refresh-btn'' False,
      SetTextContent ''refresh-btn'' ''Get New Deck'']"

text \<open>Lines 18 to 28: the five handles, all of them found.\<close>

definition handlesResolve :: "document \<Rightarrow> bool" where
  "handlesResolve d =
     (d ''remaining-cards'' \<noteq> None \<and> d ''shuffle-status'' \<noteq> None \<and> d ''deck-card'' \<noteq> None
      \<and> d ''refresh-btn'' \<noteq> None \<and> d ''error-message'' \<noteq> None)"

text \<open>
  The whole function: the effects in the order of their statements, and how the promise
  it returns ends. \<open>Pending\<close> is a call suspended for ever at an
  \<^verbatim>\<open>await\<close>; \<open>Rejected\<close> is an exception that leaves
  \<^verbatim>\<open>catch\<close>, after \<^verbatim>\<open>finally\<close> has run.
\<close>

definition fetchDeckData :: "environment \<Rightarrow> effect list \<times> unit promise" where
  "fetchDeckData env =
     (if \<not> handlesResolve (document env) then
        ([ConsoleError [JString ''Required DOM elements not found'']], Fulfilled ())
      else
        (case tryBlock env of
           (t, Pending) \<Rightarrow> (showLoading @ t, Pending)
         | (t, Fulfilled u) \<Rightarrow> (showLoading @ t @ finallyBlock, Fulfilled ())
         | (t, Rejected error) \<Rightarrow>
             (showLoading @ t @ fst (catchBlock error) @ finallyBlock, snd (catchBlock error))))"

text \<open>The page a call leaves behind.\<close>

definition finalDocument :: "environment \<Rightarrow> document" where
  "finalDocument env = run (fst (fetchDeckData env)) (document env)"

text \<open>The element an effect writes to, and the effects that are requests.\<close>

fun target :: "effect \<Rightarrow> string option" where
  "target (ClassListAdd i t) = Some i"
| "target (ClassListRemove i t) = Some i"
| "target (SetDisabled i b) = Some i"
| "target (SetTextContent i s) = Some i"
| "target (SetStyleDisplay i s) = Some i"
| "target e = None"

fun isFetch :: "effect \<Rightarrow> bool" where
  "isFetch (Fetch url) = True"
| "isFetch e = False"

text \<open>The element whose children an effect replaces.\<close>

fun textTarget :: "effect \<Rightarrow> string option" where
  "textTarget (SetTextContent i s) = Some i"
| "textTarget e = None"

section \<open>The error text as the specification words it\<close>

text \<open>
  The precedence of the specification, by the shape of the value caught: the message of
  an Error; else a string itself; else the \<^verbatim>\<open>message\<close> field of an object,
  converted to a string; else the fallback constant. It is compared below with
  \<open>errorTextOf\<close>, which follows the tests of the source.
\<close>

definition spec_errorText :: "jsvalue \<Rightarrow> jsvalue + string" where
  "spec_errorText e =
     (case e of
        JError n m \<Rightarrow> Inr m
      | JString s \<Rightarrow> Inr s
      | JObject ps \<Rightarrow>
          (case map_of ps ''message'' of
             Some v \<Rightarrow> js_String v
           | None \<Rightarrow> Inr ''An unknown error occurred'')
      | _ \<Rightarrow> Inr ''An unknown error occurred'')"

section \<open>A page and some responses\<close>

text \<open>
  A page as the specification describes it: the card container holds a caption and the
  two stat fields; the button, the banner and a title stand beside it.
\<close>

definition examplePage :: document where
  "examplePage =
     [''deck-card'' \<mapsto> \<lparr>classList = [''card''], disabled = False, display = [],
                        childNodes = [TextNode ''Deck'', ElementNode ''remaining-cards'',
                                      ElementNode ''shuffle-status'']\<rparr>,
      ''remaining-cards'' \<mapsto> \<lparr>classList = [''stat''], disabled = False, display = [],
                              childNodes = [TextNode ''-'']\<rparr>,
      ''shuffle-status'' \<mapsto> \<lparr>classList = [''stat''], disabled = False, display = [],
                             childNodes = [TextNode ''-'']\<rparr>,
      ''refresh-btn'' \<mapsto> \<lparr>classList = [], disabled = False, display = [],
                          childNodes = [TextNode ''Get New Deck'']\<rparr>,
      ''error-message'' \<mapsto> \<lparr>classList = [], disabled = False, display = ''block'',
                            childNodes = [TextNode ''old'']\<rparr>,
      ''title'' \<mapsto> \<lparr>classList = [], disabled = False, display = [],
                    childNodes = [TextNode ''Deck'']\<rparr>]"

text \<open>The same page as an earlier call left it while it was loading.\<close>

definition loadingPage :: document where
  "loadingPage =
     examplePage
       (''deck-card'' \<mapsto> \<lparr>classList = [''card'', ''loading''], disabled = False, display = [],
                          childNodes = [TextNode ''Deck'', ElementNode ''remaining-cards'',
                                        ElementNode ''shuffle-status'']\<rparr>,
        ''refresh-btn'' \<mapsto> \<lparr>classList = [], disabled = True, display = [],
                            childNodes = [TextNode ''Loading...'']\<rparr>)"

definition exampleEnv :: "response promise \<Rightarrow> environment" where
  "exampleEnv p = \<lparr>document = examplePage, fetch = (\<lambda>url. if url = deckUrl then p else Pending)\<rparr>"

definition respond :: "16 word \<Rightarrow> jsvalue \<Rightarrow> response promise" where
  "respond st body = Fulfilled \<lparr>status = st, json = Fulfilled body\<rparr>"

definition deckBody :: "number \<Rightarrow> bool \<Rightarrow> jsvalue" where
  "deckBody r s =
     JObject [(''success'', JBoolean True), (''deck_id'', JString ''3p40paa87x90''),
              (''shuffled'', JBoolean s), (''remaining'', JNumber r)]"

section \<open>Printing integers\<close>

text \<open>
  The digits of \<open>decimal\<close> are below ten, so \<open>digit_char\<close> reads inside its
  table; they have the number as their value, and no leading zero.
\<close>

lemma digits_below_ten: "d \<in> set (digits n) \<Longrightarrow> d < 10"
proof (induction n arbitrary: d rule: digits.induct)
  case (1 n)
  show ?case
  proof (cases "n < 10")
    case True
    with "1.prems" show ?thesis by (subst (asm) digits.simps) simp
  next
    case False
    from "1.prems" have "d \<in> set (digits (n div 10)) \<or> d = n mod 10"
      using False by (subst (asm) digits.simps) auto
    with "1.IH" [OF False] show ?thesis by auto
  qed
qed

lemma digits_value: "foldl (\<lambda>a d. 10 * a + d) 0 (digits n) = n"
proof (induction n rule: digits.induct)
  case (1 n)
  show ?case
  proof (cases "n < 10")
    case True
    then show ?thesis by (subst digits.simps) simp
  next
    case False
    with "1.IH" show ?thesis by (subst digits.simps) simp
  qed
qed

lemma digits_no_leading_zero: "0 < n \<Longrightarrow> hd (digits n) \<noteq> 0"
proof (induction n rule: digits.induct)
  case (1 n)
  show ?case
  proof (cases "n < 10")
    case True
    with "1.prems" show ?thesis by (subst digits.simps) simp
  next
    case False
    then have "0 < n div 10" by simp
    with "1.IH" [OF False] have "hd (digits (n div 10)) \<noteq> 0" by simp
    moreover have "digits (n div 10) \<noteq> []" by (subst digits.simps) simp
    ultimately show ?thesis using False by (subst digits.simps) simp
  qed
qed

lemma Number_toString_status: "Number_toString (numberOfStatus st) = decimal (unat st)"
proof -
  have "unat st < 2 ^ 16" using unsigned_less [of st] by simp
  then have "unat st < 2 ^ 53" by simp
  then have "unat (ucast st :: 53 word) = unat st"
    by (simp add: unsigned_ucast_eq take_bit_nat_eq_self)
  then show ?thesis by (simp add: Number_toString_def numberOfStatus_def)
qed

section \<open>Running effects on the page\<close>

lemma updateElement_apply:
  "updateElement j f d i = (if i = j then map_option f (d i) else d i)"
  by (simp add: updateElement_def split: option.splits)

lemma applyEffect_None: "applyEffect e d i = None \<longleftrightarrow> d i = None"
  by (cases e) (simp_all add: updateElement_apply)

lemma run_append: "run (s @ t) d = run t (run s d)"
  by (simp add: run_def)

lemma run_None: "run t d i = None \<longleftrightarrow> d i = None"
  by (induction t arbitrary: d) (simp_all add: run_def applyEffect_None)

lemma applyEffect_other: "target e \<noteq> Some i \<Longrightarrow> applyEffect e d i = d i"
  by (cases e) (auto simp: updateElement_apply)

lemma run_other: "\<forall>e \<in> set t. target e \<noteq> Some i \<Longrightarrow> run t d i = d i"
  by (induction t arbitrary: d) (simp_all add: run_def applyEffect_other)

lemma applyEffect_childNodes:
  "textTarget e \<noteq> Some i \<Longrightarrow> map_option childNodes (applyEffect e d i) = map_option childNodes (d i)"
  by (cases e) (auto simp: updateElement_apply option.map_comp comp_def map_option.identity cong: map_option_cong)

lemma run_childNodes:
  "\<forall>e \<in> set t. textTarget e \<noteq> Some i \<Longrightarrow> map_option childNodes (run t d i) = map_option childNodes (d i)"
  by (induction t arbitrary: d) (simp_all add: run_def applyEffect_childNodes)

text \<open>
  An element whose children a \<^verbatim>\<open>textContent\<close> write has replaced reads
  back the string written, under every bound of at least one.
\<close>

lemma textContent_textOnly:
  assumes "d i = Some e" and "childNodes e = textOnly s"
  shows "textContent (Suc n) d i = Some s"
  using assms by (simp add: textContent_def textOnly_def)

lemma textContent_written:
  assumes "d i = Some (e\<lparr>childNodes := textOnly s\<rparr>)"
  shows "textContent (Suc n) d i = Some s"
  using assms by (simp add: textContent_def textOnly_def)

text \<open>A text found under one bound is found under the next.\<close>

lemma those_Some_member: "those xs = Some ys \<Longrightarrow> x \<in> set xs \<Longrightarrow> \<exists>y. x = Some y"
  by (induction xs arbitrary: ys) (auto split: option.splits)

lemma textOf_mono: "textOf n d c = Some s \<Longrightarrow> textOf (Suc n) d c = Some s"
proof (induction n arbitrary: c s)
  case 0
  then show ?case by (cases c) simp_all
next
  case (Suc n)
  show ?case
  proof (cases c)
    case (TextNode t)
    with Suc.prems show ?thesis by simp
  next
    case (ElementNode i)
    with Suc.prems obtain e ss where e: "d i = Some e"
      and ss: "those (map (textOf n d) (childNodes e)) = Some ss" and s: "s = concat ss"
      by (auto split: option.splits)
    have "map (textOf (Suc n) d) (childNodes e) = map (textOf n d) (childNodes e)"
    proof (rule map_cong [OF refl])
      fix k assume "k \<in> set (childNodes e)"
      then have "textOf n d k \<in> set (map (textOf n d) (childNodes e))" by simp
      with ss obtain y where "textOf n d k = Some y" using those_Some_member by metis
      then show "textOf (Suc n) d k = textOf n d k" using Suc.IH by simp
    qed
    then have "those (map (textOf (Suc n) d) (childNodes e)) = Some ss"
      using ss by (simp only:)
    with e s ElementNode show ?thesis by simp
  qed
qed

text \<open>
  The text below a node does not change while the child lists of the elements met on the
  way down stay the same.
\<close>

lemma textOf_frame:
  assumes same: "\<And>i. i \<notin> W \<Longrightarrow> map_option childNodes (d' i) = map_option childNodes (d i)"
  shows "reached n d c \<inter> W = {} \<Longrightarrow> textOf n d' c = textOf n d c"
proof (induction n arbitrary: c)
  case 0
  then show ?case by (cases c) simp_all
next
  case (Suc n)
  show ?case
  proof (cases c)
    case (TextNode s)
    then show ?thesis by simp
  next
    case (ElementNode i)
    with Suc.prems have i: "i \<notin> W" by auto
    show ?thesis
    proof (cases "d i")
      case None
      with same [OF i] have "d' i = None" by (cases "d' i") auto
      with None ElementNode show ?thesis by simp
    next
      case (Some e)
      with same [OF i] obtain e' where e': "d' i = Some e'" "childNodes e' = childNodes e"
        by (cases "d' i") auto
      have "map (textOf n d') (childNodes e) = map (textOf n d) (childNodes e)"
      proof (rule map_cong [OF refl])
        fix k assume k: "k \<in> set (childNodes e)"
        with Suc.prems Some ElementNode have "reached n d k \<inter> W = {}" by auto
        then show "textOf n d' k = textOf n d k" by (rule Suc.IH)
      qed
      then have "those (map (textOf n d') (childNodes e)) = those (map (textOf n d) (childNodes e))"
        by (rule arg_cong)
      with Some e' ElementNode show ?thesis by simp
    qed
  qed
qed

lemma handlesResolveE:
  assumes "handlesResolve d"
  obtains a b c r m where "d ''remaining-cards'' = Some a" "d ''shuffle-status'' = Some b"
    "d ''deck-card'' = Some c" "d ''refresh-btn'' = Some r" "d ''error-message'' = Some m"
  using assms by (auto simp: handlesResolve_def)

lemma run_showLoading:
  assumes "d ''deck-card'' = Some c" "d ''refresh-btn'' = Some b" "d ''error-message'' = Some m"
  shows "run showLoading d ''deck-card'' =
           Some (c\<lparr>classList := (if ''loading'' \<in> set (classList c) then classList c else classList c @ [''loading''])\<rparr>)
       \<and> run showLoading d ''refresh-btn'' = Some (b\<lparr>disabled := True, childNodes := textOnly ''Loading...''\<rparr>)
       \<and> run showLoading d ''error-message'' = Some (m\<lparr>display := ''none''\<rparr>)"
  using assms by (simp add: showLoading_def run_def updateElement_apply)

lemma run_finallyBlock:
  assumes "d ''deck-card'' = Some c" "d ''refresh-btn'' = Some b"
  shows "run finallyBlock d ''deck-card'' = Some (c\<lparr>classList := removeAll ''loading'' (classList c)\<rparr>)
       \<and> run finallyBlock d ''refresh-btn'' = Some (b\<lparr>disabled := False, childNodes := textOnly ''Get New Deck''\<rparr>)"
  using assms by (simp add: finallyBlock_def run_def updateElement_apply)

lemma run_error_trace:
  fixes args :: "jsvalue list" and banner :: string
  assumes "d ''remaining-cards'' = Some a" "d ''shuffle-status'' = Some b" "d ''error-message'' = Some m"
  defines "t \<equiv> showLoading @ Fetch deckUrl #
             [ConsoleError args,
              SetTextContent ''remaining-cards'' ''Error'',
              SetTextContent ''shuffle-status'' ''Error'',
              SetTextContent ''error-message'' banner,
              SetStyleDisplay ''error-message'' ''block''] @ finallyBlock"
  shows "run t d ''remaining-cards'' = Some (a\<lparr>childNodes := textOnly ''Error''\<rparr>)
       \<and> run t d ''shuffle-status'' = Some (b\<lparr>childNodes := textOnly ''Error''\<rparr>)
       \<and> run t d ''error-message'' = Some (m\<lparr>display := ''block'', childNodes := textOnly banner\<rparr>)"
  using assms(1-3) unfolding t_def
  by (simp add: showLoading_def finallyBlock_def run_def updateElement_apply)

lemma run_success_trace:
  fixes args :: "jsvalue list" and x :: string and y :: string
  assumes "d ''remaining-cards'' = Some a" "d ''shuffle-status'' = Some b" "d ''error-message'' = Some m"
    "d ''deck-card'' = Some c"
  defines "t \<equiv> showLoading @
             [Fetch deckUrl,
              SetTextContent ''remaining-cards'' x,
              SetTextContent ''shuffle-status'' y,
              ConsoleLog args] @ finallyBlock"
  shows "run t d ''remaining-cards'' = Some (a\<lparr>childNodes := textOnly x\<rparr>)
       \<and> run t d ''shuffle-status'' = Some (b\<lparr>childNodes := textOnly y\<rparr>)
       \<and> run t d ''error-message'' = Some (m\<lparr>display := ''none''\<rparr>)
       \<and> run t d ''deck-card'' = Some (c\<lparr>classList := removeAll ''loading'' (classList c)\<rparr>)"
  using assms(1-4) unfolding t_def
  by (simp add: showLoading_def finallyBlock_def run_def updateElement_apply)

section \<open>The shape of the trace\<close>

lemma catchBlock_settles: "snd (catchBlock error) \<noteq> Pending"
  by (simp add: catchBlock_def split: sum.splits)

lemma completed_ends_with_finallyBlock:
  assumes "handlesResolve (document env)" "snd (fetchDeckData env) \<noteq> Pending"
  shows "\<exists>pre. fst (fetchDeckData env) = pre @ finallyBlock"
proof (cases "tryBlock env")
  case (Pair t r)
  with assms show ?thesis
    by (cases r) (auto simp: fetchDeckData_def)
qed

lemma renderData_noFetch: "\<forall>e \<in> set (fst (renderData data)). \<not> isFetch e"
  by (simp add: renderData_def split: sum.splits)

lemma renderData_settles: "snd (renderData data) \<noteq> Pending"
  by (simp add: renderData_def split: sum.splits)

lemma renderData_Rejected: "snd (renderData data) = Rejected e \<Longrightarrow> fst (renderData data) = []"
  by (auto simp: renderData_def split: sum.splits if_splits)

lemma tryBlock_begins_with_Fetch:
  "\<exists>rest. fst (tryBlock env) = Fetch deckUrl # rest \<and> (\<forall>e \<in> set rest. \<not> isFetch e)"
  by (simp add: tryBlock_def renderData_noFetch split: promise.splits)

lemma tryBlock_Rejected: "snd (tryBlock env) = Rejected e \<Longrightarrow> fst (tryBlock env) = [Fetch deckUrl]"
  by (simp add: tryBlock_def renderData_Rejected split: promise.splits if_splits)

lemma catchBlock_noFetch: "\<forall>e \<in> set (fst (catchBlock error)). \<not> isFetch e"
  by (simp add: catchBlock_def split: sum.splits)

lemma showLoading_noFetch: "\<forall>e \<in> set showLoading. \<not> isFetch e"
  by (simp add: showLoading_def)

lemma finallyBlock_noFetch: "\<forall>e \<in> set finallyBlock. \<not> isFetch e"
  by (simp add: finallyBlock_def)

lemma begins_with_showLoading_Fetch:
  assumes "handlesResolve (document env)"
  shows "\<exists>post. fst (fetchDeckData env) = showLoading @ Fetch deckUrl # post \<and> (\<forall>e \<in> set post. \<not> isFetch e)"
proof -
  obtain rest where rest: "fst (tryBlock env) = Fetch deckUrl # rest" "\<forall>e \<in> set rest. \<not> isFetch e"
    using tryBlock_begins_with_Fetch by blast
  obtain t r where tr: "tryBlock env = (t, r)" by (cases "tryBlock env")
  with rest have t: "t = Fetch deckUrl # rest" by simp
  show ?thesis
  proof (cases r)
    case Pending
    with assms tr t rest(2) show ?thesis by (simp add: fetchDeckData_def)
  next
    case (Rejected error)
    with assms tr t rest(2) show ?thesis
      using catchBlock_noFetch [of error] finallyBlock_noFetch
      by (auto simp: fetchDeckData_def)
  next
    case (Fulfilled u)
    with assms tr t rest(2) show ?thesis
      using finallyBlock_noFetch by (auto simp: fetchDeckData_def)
  qed
qed

lemma caught_trace:
  assumes "handlesResolve (document env)" "snd (tryBlock env) = Rejected e"
  shows "fetchDeckData env =
           (showLoading @ Fetch deckUrl # fst (catchBlock e) @ finallyBlock, snd (catchBlock e))"
proof -
  have "tryBlock env = ([Fetch deckUrl], Rejected e)"
    using assms(2) tryBlock_Rejected [OF assms(2)] by (cases "tryBlock env") simp
  with assms(1) show ?thesis by (simp add: fetchDeckData_def)
qed

lemma success_trace:
  assumes "handlesResolve (document env)"
    and "fetch env deckUrl = Fulfilled resp" and "ok resp" and "json resp = Fulfilled data"
    and "getProperty data ''remaining'' = Inr (JNumber r)"
    and "getProperty data ''shuffled'' = Inr (JBoolean s)"
  shows "fetchDeckData env =
           (showLoading @
            [Fetch deckUrl,
             SetTextContent ''remaining-cards'' (Number_toString r),
             SetTextContent ''shuffle-status'' (if s then ''Yes'' else ''No''),
             ConsoleLog [JString ''Full API response:'', data]] @
            finallyBlock,
            Fulfilled ())"
  using assms by (simp add: fetchDeckData_def tryBlock_def renderData_def)

lemma in_keys_map_of: "k \<in> fst ` set ps \<longleftrightarrow> map_of ps k \<noteq> None"
  by (simp add: map_of_eq_None_iff)

lemma errorTextOf_spec:
  "errorTextOf e = (case spec_errorText e of Inl x \<Rightarrow> Inl x | Inr t \<Rightarrow> Inr (JString t))"
  by (cases e) (simp_all add: errorTextOf_def spec_errorText_def in_keys_map_of split: option.splits sum.splits)

lemma catchBlock_text:
  assumes "spec_errorText e = Inr t"
  shows "catchBlock e =
           ([ConsoleError [JString ''Error fetching deck data:'', e],
             SetTextContent ''remaining-cards'' ''Error'',
             SetTextContent ''shuffle-status'' ''Error'',
             SetTextContent ''error-message'' (''Failed to load deck data: '' @ t),
             SetStyleDisplay ''error-message'' ''block''],
            Fulfilled ())"
  using assms by (simp add: catchBlock_def errorTextOf_spec)

lemma exampleEnv_handles: "handlesResolve (document (exampleEnv p))"
  by (simp add: exampleEnv_def examplePage_def handlesResolve_def)

lemma exampleEnv_fetch: "fetch (exampleEnv p) deckUrl = p"
  by (simp add: exampleEnv_def)

section \<open>Completion and the path through catch\<close>

text \<open>
  A call completes as soon as the promises it awaits settle: the fetch, and the parsing
  of the body when the response is ok. A fetch that never settles (the script sets no
  timeout) leaves the call suspended in the loading state.
\<close>

lemma settles_when_promises_settle:
  assumes "fetch env deckUrl \<noteq> Pending"
    and "\<And>resp. fetch env deckUrl = Fulfilled resp \<Longrightarrow> ok resp \<Longrightarrow> json resp \<noteq> Pending"
  shows "snd (fetchDeckData env) \<noteq> Pending"
proof -
  have "snd (tryBlock env) \<noteq> Pending"
    using assms renderData_settles by (auto simp: tryBlock_def split: promise.splits)
  then show ?thesis
    using catchBlock_settles
    by (cases "tryBlock env") (auto simp: fetchDeckData_def split: promise.splits)
qed

text \<open>
  What the page shows once the body of \<^verbatim>\<open>try\<close> has thrown \<open>e\<close> and the
  error text could be derived.
\<close>

lemma caught_final_document:
  assumes "handlesResolve (document env)" and "snd (tryBlock env) = Rejected e"
    and "spec_errorText e = Inr t"
  shows "textContent (Suc n) (finalDocument env) ''remaining-cards'' = Some ''Error''
       \<and> textContent (Suc n) (finalDocument env) ''shuffle-status'' = Some ''Error''
       \<and> textContent (Suc n) (finalDocument env) ''error-message'' = Some (''Failed to load deck data: '' @ t)
       \<and> (\<exists>m. finalDocument env ''error-message'' = Some m \<and> display m = ''block'')"
proof -
  from assms(1) obtain a b c rb m where el:
    "document env ''remaining-cards'' = Some a" "document env ''shuffle-status'' = Some b"
    "document env ''deck-card'' = Some c" "document env ''refresh-btn'' = Some rb"
    "document env ''error-message'' = Some m"
    by (rule handlesResolveE)
  define banner where "banner = ''Failed to load deck data: '' @ t"
  have "fst (fetchDeckData env) =
          showLoading @ Fetch deckUrl #
            [ConsoleError [JString ''Error fetching deck data:'', e],
             SetTextContent ''remaining-cards'' ''Error'',
             SetTextContent ''shuffle-status'' ''Error'',
             SetTextContent ''error-message'' banner,
             SetStyleDisplay ''error-message'' ''block''] @ finallyBlock"
    unfolding caught_trace [OF assms(1,2)] catchBlock_text [OF assms(3)] banner_def by simp
  with run_error_trace [OF el(1,2,5), of _ banner]
  have final: "finalDocument env ''remaining-cards'' = Some (a\<lparr>childNodes := textOnly ''Error''\<rparr>)"
    "finalDocument env ''shuffle-status'' = Some (b\<lparr>childNodes := textOnly ''Error''\<rparr>)"
    "finalDocument env ''error-message'' = Some (m\<lparr>display := ''block'', childNodes := textOnly banner\<rparr>)"
    by (simp_all add: finalDocument_def)
  have "textContent (Suc n) (finalDocument env) ''remaining-cards'' = Some ''Error''"
    using final(1) by (rule textContent_written [where d = "finalDocument env" and i = "''remaining-cards''"])
  moreover have "textContent (Suc n) (finalDocument env) ''shuffle-status'' = Some ''Error''"
    using final(2) by (rule textContent_written [where d = "finalDocument env" and i = "''shuffle-status''"])
  moreover have "textContent (Suc n) (finalDocument env) ''error-message'' = Some banner"
    using final(3) by (rule textContent_written [where d = "finalDocument env" and i = "''error-message''"])
  ultimately show ?thesis using final(3) by (simp add: banner_def)
qed

text \<open>
  When the conversion of the \<^verbatim>\<open>message\<close> field throws, the exception leaves
  \<^verbatim>\<open>catch\<close> right after the console entry.
\<close>

lemma catchBlock_conversion_throws:
  assumes "spec_errorText e = Inl x"
  shows "catchBlock e = ([ConsoleError [JString ''Error fetching deck data:'', e]], Rejected x)"
  using assms by (simp add: catchBlock_def errorTextOf_spec)

text \<open>
  A body whose two fields can be read and fail the \<^verbatim>\<open>typeof\<close> tests ends in
  the validation error. Every parsed body but \<^verbatim>\<open>null\<close> is such a body.
\<close>

lemma invalid_body_raises_validation_error:
  assumes "handlesResolve (document env)"
    and "fetch env deckUrl = Fulfilled resp" and "ok resp" and "json resp = Fulfilled data"
    and "getProperty data ''remaining'' = Inr x" and "getProperty data ''shuffled'' = Inr y"
    and "typeof x \<noteq> ''number'' \<or> typeof y \<noteq> ''boolean''"
  shows "snd (tryBlock env) = Rejected (JError ''Error'' ''Invalid API response structure'')
       \<and> textContent (Suc n) (finalDocument env) ''remaining-cards'' = Some ''Error''
       \<and> textContent (Suc n) (finalDocument env) ''shuffle-status'' = Some ''Error''
       \<and> textContent (Suc n) (finalDocument env) ''error-message''
           = Some ''Failed to load deck data: Invalid API response structure''
       \<and> (\<exists>m. finalDocument env ''error-message'' = Some m \<and> display m = ''block'')"
proof -
  define e where "e = JError ''Error'' ''Invalid API response structure''"
  have thrown: "snd (tryBlock env) = Rejected e"
    using assms(2-7) by (auto simp: tryBlock_def renderData_def e_def)
  have "spec_errorText e = Inr ''Invalid API response structure''"
    by (simp add: spec_errorText_def e_def)
  from caught_final_document [OF assms(1) thrown this, of n] thrown show ?thesis
    by (simp add: e_def)
qed

lemma getProperty_defined: "data \<noteq> JNull \<Longrightarrow> data \<noteq> JUndefined \<Longrightarrow> \<exists>v. getProperty data p = Inr v"
  by (cases data) simp_all

section \<open>The claims\<close>

text \<open>
  Claim C1. When the five handles resolve, the response is ok, and its parsed body has a
  number \<open>r\<close> as \<^verbatim>\<open>remaining\<close> and a boolean \<open>s\<close> as
  \<^verbatim>\<open>shuffled\<close>, the call leaves \<^verbatim>\<open>remaining-cards\<close> with the
  string of \<open>r\<close> as its text: for a safe integer the decimal numeral of its
  magnitude, behind a minus sign when it is negative and not zero; for any other double
  the string that the engine prints for it. It leaves \<^verbatim>\<open>shuffle-status\<close>
  with the text \<^verbatim>\<open>Yes\<close> when \<open>s\<close> holds and \<^verbatim>\<open>No\<close>
  otherwise.
\<close>

theorem success_renders_remaining_and_shuffled:
  assumes "handlesResolve (document env)"
    and "fetch env deckUrl = Fulfilled resp" and "ok resp" and "json resp = Fulfilled data"
    and "getProperty data ''remaining'' = Inr (JNumber r)"
    and "getProperty data ''shuffled'' = Inr (JBoolean s)"
  shows "textContent (Suc n) (finalDocument env) ''remaining-cards'' =
           Some (case r of
                   SafeInteger neg m \<Rightarrow> (if neg \<and> m \<noteq> 0 then ''-'' else []) @ decimal (unat m)
                 | OtherNumber str \<Rightarrow> str)
       \<and> textContent (Suc n) (finalDocument env) ''shuffle-status'' =
           Some (if s then ''Yes'' else ''No'')"
proof -
  from assms(1) obtain a b c rb m where el:
    "document env ''remaining-cards'' = Some a" "document env ''shuffle-status'' = Some b"
    "document env ''deck-card'' = Some c" "document env ''refresh-btn'' = Some rb"
    "document env ''error-message'' = Some m"
    by (rule handlesResolveE)
  define x where "x = Number_toString r"
  define y where "y = (if s then ''Yes'' else ''No'')"
  have final: "finalDocument env ''remaining-cards'' = Some (a\<lparr>childNodes := textOnly x\<rparr>)"
    "finalDocument env ''shuffle-status'' = Some (b\<lparr>childNodes := textOnly y\<rparr>)"
    unfolding finalDocument_def success_trace [OF assms] x_def y_def
    using run_success_trace [OF el(1,2,5,3)] by simp_all
  have "textContent (Suc n) (finalDocument env) ''remaining-cards'' = Some x"
    using final(1) by (rule textContent_written [where d = "finalDocument env" and i = "''remaining-cards''"])
  moreover have "textContent (Suc n) (finalDocument env) ''shuffle-status'' = Some y"
    using final(2) by (rule textContent_written [where d = "finalDocument env" and i = "''shuffle-status''"])
  ultimately show ?thesis
    by (simp add: x_def y_def Number_toString_def)
qed

text \<open>The first testable property of the specification: 3 cards, shuffled.\<close>

theorem success_renders_remaining_and_shuffled_witness:
  "handlesResolve (document (exampleEnv (respond 200 (deckBody (SafeInteger False 3) True))))
   \<and> ok \<lparr>status = 200, json = Fulfilled (deckBody (SafeInteger False 3) True)\<rparr>
   \<and> getProperty (deckBody (SafeInteger False 3) True) ''remaining'' = Inr (JNumber (SafeInteger False 3))
   \<and> getProperty (deckBody (SafeInteger False 3) True) ''shuffled'' = Inr (JBoolean True)
   \<and> textContent 1 (finalDocument (exampleEnv (respond 200 (deckBody (SafeInteger False 3) True))))
        ''remaining-cards'' = Some ''3''
   \<and> textContent 1 (finalDocument (exampleEnv (respond 200 (deckBody (SafeInteger False 3) True))))
        ''shuffle-status'' = Some ''Yes''"
proof -
  let ?body = "deckBody (SafeInteger False 3) True"
  let ?resp = "\<lparr>status = 200, json = Fulfilled ?body\<rparr>"
  have h1: "handlesResolve (document (exampleEnv (respond 200 ?body)))"
    by (rule exampleEnv_handles)
  have h2: "fetch (exampleEnv (respond 200 ?body)) deckUrl = Fulfilled ?resp"
    by (simp add: exampleEnv_fetch respond_def)
  have h3: "ok ?resp" by (simp add: ok_def)
  have h4: "json ?resp = Fulfilled ?body" by simp
  have h5: "getProperty ?body ''remaining'' = Inr (JNumber (SafeInteger False 3))"
    by (simp add: deckBody_def)
  have h6: "getProperty ?body ''shuffled'' = Inr (JBoolean True)"
    by (simp add: deckBody_def)
  have d: "decimal (unat (3 :: 53 word)) = ''3''"
    by (simp add: decimal_def digits.simps digit_char_def)
  from success_renders_remaining_and_shuffled [OF h1 h2 h3 h4 h5 h6, of 0] h1 h3 h5 h6 d
  show ?thesis by simp
qed

text \<open>
  Claim C2. When the five handles resolve and the promises the call awaits settle (the
  fetch, and the parsing of the body of an ok response), the call completes, whether the
  body of \<^verbatim>\<open>try\<close> succeeded or raised, and also when \<^verbatim>\<open>catch\<close>
  itself raised; and it leaves \<^verbatim>\<open>refresh-btn\<close> enabled and labelled
  \<^verbatim>\<open>Get New Deck\<close> and no \<^verbatim>\<open>loading\<close> token on
  \<^verbatim>\<open>deck-card\<close>.
\<close>

theorem finally_restores_controls:
  assumes "handlesResolve (document env)"
    and "fetch env deckUrl \<noteq> Pending"
    and "\<And>resp. fetch env deckUrl = Fulfilled resp \<Longrightarrow> ok resp \<Longrightarrow> json resp \<noteq> Pending"
  shows "snd (fetchDeckData env) \<noteq> Pending
       \<and> (\<exists>b c. finalDocument env ''refresh-btn'' = Some b \<and> \<not> disabled b
              \<and> finalDocument env ''deck-card'' = Some c \<and> ''loading'' \<notin> set (classList c))
       \<and> textContent (Suc n) (finalDocument env) ''refresh-btn'' = Some ''Get New Deck''"
proof -
  have settled: "snd (fetchDeckData env) \<noteq> Pending"
    using assms(2,3) by (rule settles_when_promises_settle)
  with assms(1) obtain pre where pre: "fst (fetchDeckData env) = pre @ finallyBlock"
    using completed_ends_with_finallyBlock by blast
  let ?d = "run pre (document env)"
  from assms(1) have "?d ''deck-card'' \<noteq> None" "?d ''refresh-btn'' \<noteq> None"
    by (simp_all add: run_None handlesResolve_def)
  then obtain c b where "?d ''deck-card'' = Some c" "?d ''refresh-btn'' = Some b"
    by auto
  from run_finallyBlock [OF this]
  have final: "finalDocument env ''deck-card'' = Some (c\<lparr>classList := removeAll ''loading'' (classList c)\<rparr>)"
    "finalDocument env ''refresh-btn'' = Some (b\<lparr>disabled := False, childNodes := textOnly ''Get New Deck''\<rparr>)"
    by (simp_all add: finalDocument_def pre run_append)
  have "textContent (Suc n) (finalDocument env) ''refresh-btn'' = Some ''Get New Deck''"
    using final(2) by (rule textContent_written [where d = "finalDocument env" and i = "''refresh-btn''"])
  with settled final show ?thesis by simp
qed

text \<open>
  A network failure on a page that an earlier call left loading: the fetch rejects with
  a TypeError, and the call brings the page back to idle.
\<close>

theorem finally_restores_controls_witness:
  "loadingPage ''refresh-btn'' =
     Some \<lparr>classList = [], disabled = True, display = [], childNodes = [TextNode ''Loading...'']\<rparr>
   \<and> handlesResolve (document (exampleEnv (Rejected (TypeError ''Failed to fetch'')) \<lparr>document := loadingPage\<rparr>))
   \<and> fetch (exampleEnv (Rejected (TypeError ''Failed to fetch'')) \<lparr>document := loadingPage\<rparr>) deckUrl \<noteq> Pending
   \<and> snd (fetchDeckData (exampleEnv (Rejected (TypeError ''Failed to fetch'')) \<lparr>document := loadingPage\<rparr>)) \<noteq> Pending
   \<and> (\<exists>b c. finalDocument (exampleEnv (Rejected (TypeError ''Failed to fetch'')) \<lparr>document := loadingPage\<rparr>)
                ''refresh-btn'' = Some b
          \<and> \<not> disabled b
          \<and> finalDocument (exampleEnv (Rejected (TypeError ''Failed to fetch'')) \<lparr>document := loadingPage\<rparr>)
                ''deck-card'' = Some c
          \<and> ''loading'' \<notin> set (classList c))
   \<and> textContent 1 (finalDocument (exampleEnv (Rejected (TypeError ''Failed to fetch'')) \<lparr>document := loadingPage\<rparr>))
        ''refresh-btn'' = Some ''Get New Deck''"
proof -
  let ?env = "exampleEnv (Rejected (TypeError ''Failed to fetch'')) \<lparr>document := loadingPage\<rparr>"
  have p: "loadingPage ''refresh-btn'' =
     Some \<lparr>classList = [], disabled = True, display = [], childNodes = [TextNode ''Loading...'']\<rparr>"
    by (simp add: loadingPage_def)
  have h1: "handlesResolve (document ?env)"
    by (simp add: handlesResolve_def loadingPage_def examplePage_def)
  have f: "fetch ?env deckUrl = Rejected (TypeError ''Failed to fetch'')"
    by (simp add: exampleEnv_def)
  then have h2: "fetch ?env deckUrl \<noteq> Pending" by simp
  have h3: "json resp \<noteq> Pending" if "fetch ?env deckUrl = Fulfilled resp" for resp
    using that f by simp
  from finally_restores_controls [OF h1 h2 h3, of 0] p h1 h2 show ?thesis by simp
qed

text \<open>
  Claim C3. When the five handles resolve and the response is not ok, the body of
  \<^verbatim>\<open>try\<close> throws the object whose \<^verbatim>\<open>message\<close> is
  \<^verbatim>\<open>HTTP error! status: \<close> followed by the decimal numeral of the status, both
  stat fields end with the text \<^verbatim>\<open>Error\<close>, and the banner is displayed as a
  block with the text \<^verbatim>\<open>Failed to load deck data: \<close> followed by that
  message.
\<close>

theorem http_failure_shows_status:
  assumes "handlesResolve (document env)"
    and "fetch env deckUrl = Fulfilled resp" and "\<not> ok resp"
  shows "snd (tryBlock env) =
           Rejected (JObject [(''message'', JString (''HTTP error! status: '' @ decimal (unat (status resp)))),
                              (''status'', JNumber (numberOfStatus (status resp)))])
       \<and> textContent (Suc n) (finalDocument env) ''remaining-cards'' = Some ''Error''
       \<and> textContent (Suc n) (finalDocument env) ''shuffle-status'' = Some ''Error''
       \<and> textContent (Suc n) (finalDocument env) ''error-message''
           = Some (''Failed to load deck data: HTTP error! status: '' @ decimal (unat (status resp)))
       \<and> (\<exists>m. finalDocument env ''error-message'' = Some m \<and> display m = ''block'')"
proof -
  define msg where "msg = ''HTTP error! status: '' @ decimal (unat (status resp))"
  define e where "e = JObject [(''message'', JString msg), (''status'', JNumber (numberOfStatus (status resp)))]"
  have thrown: "snd (tryBlock env) = Rejected e"
    using assms(2,3) by (simp add: tryBlock_def apiError_def Number_toString_status e_def msg_def)
  have "spec_errorText e = Inr msg" by (simp add: spec_errorText_def e_def)
  from caught_final_document [OF assms(1) thrown this, of n] thrown show ?thesis
    by (simp add: e_def msg_def)
qed

text \<open>The third testable property of the specification: status 429.\<close>

theorem http_failure_shows_status_witness:
  "handlesResolve (document (exampleEnv (respond 429 JNull)))
   \<and> \<not> ok \<lparr>status = 429, json = Fulfilled JNull\<rparr>
   \<and> snd (tryBlock (exampleEnv (respond 429 JNull))) =
       Rejected (JObject [(''message'', JString ''HTTP error! status: 429''),
                          (''status'', JNumber (numberOfStatus 429))])
   \<and> textContent 1 (finalDocument (exampleEnv (respond 429 JNull))) ''remaining-cards'' = Some ''Error''
   \<and> textContent 1 (finalDocument (exampleEnv (respond 429 JNull))) ''shuffle-status'' = Some ''Error''
   \<and> textContent 1 (finalDocument (exampleEnv (respond 429 JNull))) ''error-message''
       = Some ''Failed to load deck data: HTTP error! status: 429''
   \<and> (\<exists>m. finalDocument (exampleEnv (respond 429 JNull)) ''error-message'' = Some m
          \<and> display m = ''block'')"
proof -
  let ?resp = "\<lparr>status = 429, json = Fulfilled JNull\<rparr>"
  have h1: "handlesResolve (document (exampleEnv (respond 429 JNull)))" by (rule exampleEnv_handles)
  have h2: "fetch (exampleEnv (respond 429 JNull)) deckUrl = Fulfilled ?resp"
    by (simp add: exampleEnv_fetch respond_def)
  have h3: "\<not> ok ?resp" by (simp add: ok_def)
  have d: "decimal (unat (429 :: 16 word)) = ''429''"
    by (simp add: decimal_def digits.simps digit_char_def)
  from http_failure_shows_status [OF h1 h2 h3, of 0] h1 h3 d show ?thesis by simp
qed

text \<open>
  Claim C4 says that an ok response whose parsed body has a \<^verbatim>\<open>remaining\<close>
  that is not a number, or a \<^verbatim>\<open>shuffled\<close> that is not a boolean, ends in the
  generic validation error and its message in the banner. For the body
  \<^verbatim>\<open>null\<close> the test of line 53 itself throws: reading
  \<^verbatim>\<open>data.remaining\<close> raises a TypeError, which is not the validation error, and
  the banner shows the TypeError's message. (For every other body,
  \<open>invalid_body_raises_validation_error\<close> gives what the claim says.)
\<close>

theorem null_body_raises_TypeError:
  "snd (tryBlock (exampleEnv (respond 200 JNull))) = Rejected (cannotRead ''null'' ''remaining'')
   \<and> cannotRead ''null'' ''remaining'' \<noteq> JError ''Error'' ''Invalid API response structure''
   \<and> textContent 1 (finalDocument (exampleEnv (respond 200 JNull))) ''error-message'' =
        Some (''Failed to load deck data: Cannot read properties of null (reading ''
                 @ [CHR 0x27] @ ''remaining'' @ [CHR 0x27] @ '')'')"
proof -
  let ?env = "exampleEnv (respond 200 JNull)"
  define e where "e = cannotRead ''null'' ''remaining''"
  have thrown: "snd (tryBlock ?env) = Rejected e"
    by (simp add: tryBlock_def renderData_def exampleEnv_fetch respond_def ok_def e_def)
  have differs: "e \<noteq> JError ''Error'' ''Invalid API response structure''"
    by (simp add: e_def cannotRead_def TypeError_def)
  have shown: "spec_errorText e = Inr (''Cannot read properties of null (reading ''
                 @ [CHR 0x27] @ ''remaining'' @ [CHR 0x27] @ '')'')"
    by (simp add: e_def cannotRead_def TypeError_def spec_errorText_def)
  from caught_final_document [OF exampleEnv_handles thrown shown, of 0] thrown differs
  show ?thesis by (auto simp: e_def)
qed

text \<open>
  Claim C5. When at least one of the five handles is missing, the call does nothing but
  write one entry to the console: it issues no request, it changes no element, and it
  returns.
\<close>

theorem missing_handle_only_logs:
  assumes "document env ''remaining-cards'' = None \<or> document env ''shuffle-status'' = None
         \<or> document env ''deck-card'' = None \<or> document env ''refresh-btn'' = None
         \<or> document env ''error-message'' = None"
  shows "fetchDeckData env = ([ConsoleError [JString ''Required DOM elements not found'']], Fulfilled ())
       \<and> filter isFetch (fst (fetchDeckData env)) = []
       \<and> finalDocument env = document env"
proof -
  from assms have "\<not> handlesResolve (document env)"
    by (auto simp: handlesResolve_def)
  then have "fetchDeckData env = ([ConsoleError [JString ''Required DOM elements not found'']], Fulfilled ())"
    by (simp add: fetchDeckData_def)
  then show ?thesis by (simp add: finalDocument_def run_def)
qed

text \<open>A page without the error banner.\<close>

theorem missing_handle_only_logs_witness:
  "document (exampleEnv (respond 200 (deckBody (SafeInteger False 52) True))
              \<lparr>document := examplePage(''error-message'' := None)\<rparr>) ''error-message'' = None
   \<and> fetchDeckData (exampleEnv (respond 200 (deckBody (SafeInteger False 52) True))
              \<lparr>document := examplePage(''error-message'' := None)\<rparr>)
       = ([ConsoleError [JString ''Required DOM elements not found'']], Fulfilled ())
   \<and> finalDocument (exampleEnv (respond 200 (deckBody (SafeInteger False 52) True))
              \<lparr>document := examplePage(''error-message'' := None)\<rparr>)
       = examplePage(''error-message'' := None)"
proof -
  let ?env = "exampleEnv (respond 200 (deckBody (SafeInteger False 52) True))
              \<lparr>document := examplePage(''error-message'' := None)\<rparr>"
  have h: "document ?env ''error-message'' = None" by simp
  then have "document ?env ''remaining-cards'' = None \<or> document ?env ''shuffle-status'' = None
         \<or> document ?env ''deck-card'' = None \<or> document ?env ''refresh-btn'' = None
         \<or> document ?env ''error-message'' = None" by simp
  from missing_handle_only_logs [OF this] show ?thesis by simp
qed

text \<open>
  Claim C6. For every value \<open>e\<close> that the body of \<^verbatim>\<open>try\<close> throws, the
  text that \<^verbatim>\<open>catch\<close> derives is the one of the specification's precedence
  (\<open>spec_errorText\<close>: an Error's message, else a string itself, else an object's
  \<^verbatim>\<open>message\<close> field converted to a string, else
  \<^verbatim>\<open>An unknown error occurred\<close>), and the banner is displayed with that text
  behind \<^verbatim>\<open>Failed to load deck data: \<close>.
\<close>

theorem error_text_precedence:
  assumes "handlesResolve (document env)" and "snd (tryBlock env) = Rejected e"
    and "spec_errorText e = Inr t"
  shows "errorTextOf e = Inr (JString t)
       \<and> textContent (Suc n) (finalDocument env) ''error-message'' = Some (''Failed to load deck data: '' @ t)
       \<and> (\<exists>m. finalDocument env ''error-message'' = Some m \<and> display m = ''block'')"
proof -
  have "errorTextOf e = Inr (JString t)"
    using assms(3) by (simp add: errorTextOf_spec)
  with caught_final_document [OF assms, of n] show ?thesis by blast
qed

text \<open>An object whose \<^verbatim>\<open>message\<close> is the number 404.\<close>

theorem error_text_precedence_witness:
  "handlesResolve (document (exampleEnv (Rejected (JObject [(''code'', JNull), (''message'', JNumber (SafeInteger False 404))]))))
   \<and> snd (tryBlock (exampleEnv (Rejected (JObject [(''code'', JNull), (''message'', JNumber (SafeInteger False 404))]))))
       = Rejected (JObject [(''code'', JNull), (''message'', JNumber (SafeInteger False 404))])
   \<and> spec_errorText (JObject [(''code'', JNull), (''message'', JNumber (SafeInteger False 404))]) = Inr ''404''
   \<and> errorTextOf (JObject [(''code'', JNull), (''message'', JNumber (SafeInteger False 404))]) = Inr (JString ''404'')
   \<and> textContent 1 (finalDocument (exampleEnv (Rejected (JObject [(''code'', JNull), (''message'', JNumber (SafeInteger False 404))]))))
        ''error-message'' = Some ''Failed to load deck data: 404''
   \<and> (\<exists>m. finalDocument (exampleEnv (Rejected (JObject [(''code'', JNull), (''message'', JNumber (SafeInteger False 404))]))) ''error-message'' = Some m
          \<and> display m = ''block'')"
proof -
  let ?e = "JObject [(''code'', JNull), (''message'', JNumber (SafeInteger False 404))]"
  have h1: "handlesResolve (document (exampleEnv (Rejected ?e)))" by (rule exampleEnv_handles)
  have h2: "snd (tryBlock (exampleEnv (Rejected ?e))) = Rejected ?e"
    by (simp add: tryBlock_def exampleEnv_fetch)
  have h3: "spec_errorText ?e = Inr ''404''"
    by (simp add: spec_errorText_def Number_toString_def decimal_def digits.simps digit_char_def)
  from error_text_precedence [OF h1 h2 h3, of 0] h1 h2 h3 show ?thesis by simp
qed

text \<open>
  Claim C7. When the five handles resolve, the request is preceded by no other request,
  and the page on which it is issued has the \<^verbatim>\<open>loading\<close> token on
  \<^verbatim>\<open>deck-card\<close>, \<^verbatim>\<open>refresh-btn\<close> disabled and labelled
  \<^verbatim>\<open>Loading...\<close>, and the banner's display set to \<^verbatim>\<open>none\<close>.
\<close>

theorem loading_state_precedes_request:
  assumes "handlesResolve (document env)"
  shows "\<exists>pre post c b m.
           fst (fetchDeckData env) = pre @ Fetch deckUrl # post
         \<and> filter isFetch pre = []
         \<and> run pre (document env) ''deck-card'' = Some c \<and> ''loading'' \<in> set (classList c)
         \<and> run pre (document env) ''refresh-btn'' = Some b \<and> disabled b
         \<and> textContent (Suc n) (run pre (document env)) ''refresh-btn'' = Some ''Loading...''
         \<and> run pre (document env) ''error-message'' = Some m \<and> display m = ''none''"
proof -
  from begins_with_showLoading_Fetch [OF assms] obtain post
    where post: "fst (fetchDeckData env) = showLoading @ Fetch deckUrl # post" by blast
  from assms obtain a b c rb m where el:
    "document env ''remaining-cards'' = Some a" "document env ''shuffle-status'' = Some b"
    "document env ''deck-card'' = Some c" "document env ''refresh-btn'' = Some rb"
    "document env ''error-message'' = Some m"
    by (rule handlesResolveE)
  note loaded = run_showLoading [OF el(3,4,5)]
  have label: "textContent (Suc n) (run showLoading (document env)) ''refresh-btn'' = Some ''Loading...''"
    using loaded
    by (intro textContent_written [where d = "run showLoading (document env)" and i = "''refresh-btn''"
          and e = "rb\<lparr>disabled := True\<rparr>"]) simp
  have "filter isFetch showLoading = []" by (simp add: showLoading_def)
  with post loaded label show ?thesis
    by (intro exI [of _ showLoading] exI [of _ post]) simp
qed

text \<open>A fetch that never settles: the request has still been issued on the loading page.\<close>

theorem loading_state_precedes_request_witness:
  "handlesResolve (document (exampleEnv Pending))
   \<and> (\<exists>pre post c b m.
           fst (fetchDeckData (exampleEnv Pending)) = pre @ Fetch deckUrl # post
         \<and> filter isFetch pre = []
         \<and> run pre (document (exampleEnv Pending)) ''deck-card'' = Some c \<and> ''loading'' \<in> set (classList c)
         \<and> run pre (document (exampleEnv Pending)) ''refresh-btn'' = Some b \<and> disabled b
         \<and> textContent 1 (run pre (document (exampleEnv Pending))) ''refresh-btn'' = Some ''Loading...''
         \<and> run pre (document (exampleEnv Pending)) ''error-message'' = Some m \<and> display m = ''none'')"
  using loading_state_precedes_request [OF exampleEnv_handles [of Pending], of 0] exampleEnv_handles [of Pending]
  by simp

text \<open>
  Claim C8. When the five handles resolve, the call issues exactly one request, a GET of
  the deck-shuffle address, whatever the fetch and the parsing give: there is no retry.
\<close>

theorem exactly_one_request:
  assumes "handlesResolve (document env)"
  shows "filter isFetch (fst (fetchDeckData env)) =
           [Fetch ''https://www.deckofcardsapi.com/api/deck/new/shuffle/?deck_count=1'']"
proof -
  from begins_with_showLoading_Fetch [OF assms] obtain post
    where post: "fst (fetchDeckData env) = showLoading @ Fetch deckUrl # post"
      and none: "\<forall>e \<in> set post. \<not> isFetch e" by blast
  from none have "filter isFetch post = []" by (simp add: filter_empty_conv)
  with post show ?thesis by (simp add: showLoading_def deckUrl_def)
qed

text \<open>A failing response, status 503: one request all the same.\<close>

theorem exactly_one_request_witness:
  "handlesResolve (document (exampleEnv (respond 503 JNull)))
   \<and> filter isFetch (fst (fetchDeckData (exampleEnv (respond 503 JNull)))) =
           [Fetch ''https://www.deckofcardsapi.com/api/deck/new/shuffle/?deck_count=1'']"
  using exactly_one_request [OF exampleEnv_handles [of "respond 503 JNull"]]
    exampleEnv_handles [of "respond 503 JNull"]
  by simp

text \<open>
  Claim C9. The validation looks at \<^verbatim>\<open>remaining\<close> and
  \<^verbatim>\<open>shuffled\<close> only: for an ok response whose body is any property table
  \<open>ps\<close> with a number as \<^verbatim>\<open>remaining\<close> and a boolean as
  \<^verbatim>\<open>shuffled\<close>, whatever \<open>ps\<close> holds or lacks for
  \<^verbatim>\<open>success\<close> and \<^verbatim>\<open>deck_id\<close>, the call takes the success
  path: it renders the two stat fields, logs the body and completes without an error.
\<close>

theorem validation_reads_only_remaining_and_shuffled:
  assumes "handlesResolve (document env)"
    and "fetch env deckUrl = Fulfilled resp" and "ok resp" and "json resp = Fulfilled (JObject ps)"
    and "map_of ps ''remaining'' = Some (JNumber r)"
    and "map_of ps ''shuffled'' = Some (JBoolean s)"
  shows "fetchDeckData env =
           (showLoading @
            [Fetch deckUrl,
             SetTextContent ''remaining-cards'' (Number_toString r),
             SetTextContent ''shuffle-status'' (if s then ''Yes'' else ''No''),
             ConsoleLog [JString ''Full API response:'', JObject ps]] @
            finallyBlock,
            Fulfilled ())"
proof -
  from assms(5) have "getProperty (JObject ps) ''remaining'' = Inr (JNumber r)" by simp
  moreover from assms(6) have "getProperty (JObject ps) ''shuffled'' = Inr (JBoolean s)" by simp
  ultimately show ?thesis using assms(1-4) by (rule success_trace [rotated 4])
qed

text \<open>A body with \<^verbatim>\<open>success\<close> false and a number as \<^verbatim>\<open>deck_id\<close>.\<close>

theorem validation_reads_only_remaining_and_shuffled_witness:
  "handlesResolve (document (exampleEnv (respond 200 (JObject
      [(''success'', JBoolean False), (''deck_id'', JNumber (SafeInteger False 7)),
       (''remaining'', JNumber (SafeInteger False 0)), (''shuffled'', JBoolean False)]))))
   \<and> ok \<lparr>status = 200, json = Fulfilled (JObject
      [(''success'', JBoolean False), (''deck_id'', JNumber (SafeInteger False 7)),
       (''remaining'', JNumber (SafeInteger False 0)), (''shuffled'', JBoolean False)])\<rparr>
   \<and> fetchDeckData (exampleEnv (respond 200 (JObject
      [(''success'', JBoolean False), (''deck_id'', JNumber (SafeInteger False 7)),
       (''remaining'', JNumber (SafeInteger False 0)), (''shuffled'', JBoolean False)]))) =
       (showLoading @
        [Fetch deckUrl,
         SetTextContent ''remaining-cards'' ''0'',
         SetTextContent ''shuffle-status'' ''No'',
         ConsoleLog [JString ''Full API response:'', JObject
           [(''success'', JBoolean False), (''deck_id'', JNumber (SafeInteger False 7)),
            (''remaining'', JNumber (SafeInteger False 0)), (''shuffled'', JBoolean False)]]] @
        finallyBlock,
        Fulfilled ())"
proof -
  let ?ps = "[(''success'', JBoolean False), (''deck_id'', JNumber (SafeInteger False 7)),
       (''remaining'', JNumber (SafeInteger False 0)), (''shuffled'', JBoolean False)]"
  let ?resp = "\<lparr>status = 200, json = Fulfilled (JObject ?ps)\<rparr>"
  have h1: "handlesResolve (document (exampleEnv (respond 200 (JObject ?ps))))"
    by (rule exampleEnv_handles)
  have h2: "fetch (exampleEnv (respond 200 (JObject ?ps))) deckUrl = Fulfilled ?resp"
    by (simp add: exampleEnv_fetch respond_def)
  have h3: "ok ?resp" by (simp add: ok_def)
  have h4: "json ?resp = Fulfilled (JObject ?ps)" by simp
  have h5: "map_of ?ps ''remaining'' = Some (JNumber (SafeInteger False 0))" by simp
  have h6: "map_of ?ps ''shuffled'' = Some (JBoolean False)" by simp
  have n: "Number_toString (SafeInteger False 0) = ''0''"
    by (simp add: Number_toString_def decimal_def digits.simps digit_char_def)
  from validation_reads_only_remaining_and_shuffled [OF h1 h2 h3 h4 h5 h6] h1 h3 n
  show ?thesis by simp
qed

text \<open>
  Claim C10 says that the success path hides the banner at the start and does not touch
  it again, and that the banner's text content and every element other than the two stat
  fields, the class list of the deck card and the button are left unchanged. On the
  example page the deck card is the card container of the specification and holds the
  two stat fields: its text content is \<^verbatim>\<open>Deck--\<close> before the call and
  \<^verbatim>\<open>Deck52Yes\<close> after it, so more than its class list has changed.
\<close>

theorem deck_card_text_changes_on_success:
  "handlesResolve (document (exampleEnv (respond 200 (deckBody (SafeInteger False 52) True))))
   \<and> fst (fetchDeckData (exampleEnv (respond 200 (deckBody (SafeInteger False 52) True)))) =
       showLoading @
       [Fetch deckUrl,
        SetTextContent ''remaining-cards'' ''52'',
        SetTextContent ''shuffle-status'' ''Yes'',
        ConsoleLog [JString ''Full API response:'', deckBody (SafeInteger False 52) True]] @
       finallyBlock
   \<and> snd (fetchDeckData (exampleEnv (respond 200 (deckBody (SafeInteger False 52) True)))) = Fulfilled ()
   \<and> textContent 2 (document (exampleEnv (respond 200 (deckBody (SafeInteger False 52) True))))
        ''deck-card'' = Some ''Deck--''
   \<and> textContent 2 (finalDocument (exampleEnv (respond 200 (deckBody (SafeInteger False 52) True))))
        ''deck-card'' = Some ''Deck52Yes''"
proof -
  let ?body = "deckBody (SafeInteger False 52) True"
  let ?resp = "\<lparr>status = 200, json = Fulfilled ?body\<rparr>"
  let ?env = "exampleEnv (respond 200 ?body)"
  have h1: "handlesResolve (document ?env)" by (rule exampleEnv_handles)
  have h2: "fetch ?env deckUrl = Fulfilled ?resp"
    by (simp add: exampleEnv_fetch respond_def)
  have h3: "ok ?resp" by (simp add: ok_def)
  have h4: "json ?resp = Fulfilled ?body" by simp
  have h5: "getProperty ?body ''remaining'' = Inr (JNumber (SafeInteger False 52))"
    by (simp add: deckBody_def)
  have h6: "getProperty ?body ''shuffled'' = Inr (JBoolean True)"
    by (simp add: deckBody_def)
  have n: "Number_toString (SafeInteger False 52) = ''52''"
    by (simp add: Number_toString_def decimal_def digits.simps digit_char_def)
  note trace = success_trace [OF h1 h2 h3 h4 h5 h6, unfolded n]
  have before: "textContent 2 (document ?env) ''deck-card'' = Some ''Deck--''"
    by (simp add: textContent_def exampleEnv_def examplePage_def numeral_2_eq_2)
  have after: "textContent 2 (finalDocument ?env) ''deck-card'' = Some ''Deck52Yes''"
    unfolding finalDocument_def trace
    by (simp add: textContent_def exampleEnv_def examplePage_def numeral_2_eq_2
          showLoading_def finallyBlock_def run_def updateElement_apply textOnly_def)
  from h1 trace before after show ?thesis by simp
qed

text \<open>
  Claim C10 as amended. On the success path the only effect on the banner is the one of
  the loading state, before the request, which sets its display to
  \<^verbatim>\<open>none\<close>: the banner ends with its child nodes and its other attributes as
  they were. The deck card changes in its class list only, and every element other than
  the five of the script keeps its attributes and its child nodes. The text content of
  an element that contains neither stat field nor the button is unchanged, the banner's
  too then; the text content of an element that contains a stat field follows the stat
  field.
\<close>

theorem success_writes_only_stat_fields_button_and_flags:
  assumes "handlesResolve (document env)"
    and "fetch env deckUrl = Fulfilled resp" and "ok resp" and "json resp = Fulfilled data"
    and "getProperty data ''remaining'' = Inr (JNumber r)"
    and "getProperty data ''shuffled'' = Inr (JBoolean s)"
    and "document env ''error-message'' = Some m"
    and "document env ''deck-card'' = Some c"
  shows "(\<exists>post. fst (fetchDeckData env) = showLoading @ Fetch deckUrl # post
            \<and> filter (\<lambda>e. target e = Some ''error-message'') showLoading
                = [SetStyleDisplay ''error-message'' ''none'']
            \<and> filter (\<lambda>e. target e = Some ''error-message'') post = [])
       \<and> finalDocument env ''error-message'' = Some (m\<lparr>display := ''none''\<rparr>)
       \<and> finalDocument env ''deck-card'' = Some (c\<lparr>classList := removeAll ''loading'' (classList c)\<rparr>)
       \<and> (\<forall>i. i \<notin> {''remaining-cards'', ''shuffle-status'', ''deck-card'', ''refresh-btn'', ''error-message''}
              \<longrightarrow> finalDocument env i = document env i)
       \<and> (\<forall>k j. reached k (document env) (ElementNode j)
                    \<inter> {''remaining-cards'', ''shuffle-status'', ''refresh-btn''} = {}
              \<longrightarrow> textContent k (finalDocument env) j = textContent k (document env) j)"
proof -
  define post where "post =
     [SetTextContent ''remaining-cards'' (Number_toString r),
      SetTextContent ''shuffle-status'' (if s then ''Yes'' else ''No''),
      ConsoleLog [JString ''Full API response:'', data]] @ finallyBlock"
  have trace: "fst (fetchDeckData env) = showLoading @ Fetch deckUrl # post"
    by (simp add: success_trace [OF assms(1-6)] post_def)
  have banner: "filter (\<lambda>e. target e = Some ''error-message'') showLoading
                  = [SetStyleDisplay ''error-message'' ''none'']"
    by (simp add: showLoading_def)
  have after: "filter (\<lambda>e. target e = Some ''error-message'') post = []"
    by (simp add: post_def finallyBlock_def)
  from assms(1) obtain a b c' rb m' where el:
    "document env ''remaining-cards'' = Some a" "document env ''shuffle-status'' = Some b"
    "document env ''deck-card'' = Some c'" "document env ''refresh-btn'' = Some rb"
    "document env ''error-message'' = Some m'"
    by (rule handlesResolveE)
  have final: "finalDocument env ''error-message'' = Some (m\<lparr>display := ''none''\<rparr>)
       \<and> finalDocument env ''deck-card'' = Some (c\<lparr>classList := removeAll ''loading'' (classList c)\<rparr>)"
    unfolding finalDocument_def success_trace [OF assms(1-6)]
    using run_success_trace [OF el(1,2) assms(7,8)] by simp
  have others: "finalDocument env i = document env i"
    if "i \<notin> {''remaining-cards'', ''shuffle-status'', ''deck-card'', ''refresh-btn'', ''error-message''}" for i
  proof -
    have "\<forall>e \<in> set (showLoading @ Fetch deckUrl # post). target e \<noteq> Some i"
      using that by (auto simp: showLoading_def post_def finallyBlock_def)
    then show ?thesis
      unfolding finalDocument_def trace by (rule run_other)
  qed
  have children: "map_option childNodes (finalDocument env i) = map_option childNodes (document env i)"
    if "i \<notin> {''remaining-cards'', ''shuffle-status'', ''refresh-btn''}" for i
  proof -
    have "\<forall>e \<in> set (showLoading @ Fetch deckUrl # post). textTarget e \<noteq> Some i"
      using that by (auto simp: showLoading_def post_def finallyBlock_def)
    then show ?thesis
      unfolding finalDocument_def trace by (rule run_childNodes)
  qed
  have texts: "textContent k (finalDocument env) j = textContent k (document env) j"
    if "reached k (document env) (ElementNode j)
          \<inter> {''remaining-cards'', ''shuffle-status'', ''refresh-btn''} = {}" for k j
    unfolding textContent_def using children that by (rule textOf_frame)
  from trace banner after final others texts show ?thesis by blast
qed

text \<open>
  The example page: the banner keeps its old text and the title is untouched; neither
  contains a stat field or the button.
\<close>

theorem success_writes_only_stat_fields_button_and_flags_witness:
  "handlesResolve (document (exampleEnv (respond 200 (deckBody (SafeInteger False 52) True))))
   \<and> ok \<lparr>status = 200, json = Fulfilled (deckBody (SafeInteger False 52) True)\<rparr>
   \<and> examplePage ''error-message''
       = Some \<lparr>classList = [], disabled = False, display = ''block'', childNodes = [TextNode ''old'']\<rparr>
   \<and> reached 1 examplePage (ElementNode ''error-message'')
        \<inter> {''remaining-cards'', ''shuffle-status'', ''refresh-btn''} = {}
   \<and> finalDocument (exampleEnv (respond 200 (deckBody (SafeInteger False 52) True))) ''error-message''
       = Some \<lparr>classList = [], disabled = False, display = ''none'', childNodes = [TextNode ''old'']\<rparr>
   \<and> textContent 1 (finalDocument (exampleEnv (respond 200 (deckBody (SafeInteger False 52) True))))
        ''error-message'' = Some ''old''
   \<and> finalDocument (exampleEnv (respond 200 (deckBody (SafeInteger False 52) True))) ''deck-card''
       = Some \<lparr>classList = [''card''], disabled = False, display = [],
               childNodes = [TextNode ''Deck'', ElementNode ''remaining-cards'',
                             ElementNode ''shuffle-status'']\<rparr>
   \<and> finalDocument (exampleEnv (respond 200 (deckBody (SafeInteger False 52) True))) ''title''
       = examplePage ''title''"
proof -
  let ?body = "deckBody (SafeInteger False 52) True"
  let ?resp = "\<lparr>status = 200, json = Fulfilled ?body\<rparr>"
  let ?env = "exampleEnv (respond 200 ?body)"
  have h1: "handlesResolve (document ?env)" by (rule exampleEnv_handles)
  have h2: "fetch ?env deckUrl = Fulfilled ?resp"
    by (simp add: exampleEnv_fetch respond_def)
  have h3: "ok ?resp" by (simp add: ok_def)
  have h4: "json ?resp = Fulfilled ?body" by simp
  have h5: "getProperty ?body ''remaining'' = Inr (JNumber (SafeInteger False 52))"
    by (simp add: deckBody_def)
  have h6: "getProperty ?body ''shuffled'' = Inr (JBoolean True)"
    by (simp add: deckBody_def)
  have pm: "examplePage ''error-message''
       = Some \<lparr>classList = [], disabled = False, display = ''block'', childNodes = [TextNode ''old'']\<rparr>"
    by (simp add: examplePage_def)
  have pc: "examplePage ''deck-card''
       = Some \<lparr>classList = [''card''], disabled = False, display = [],
               childNodes = [TextNode ''Deck'', ElementNode ''remaining-cards'',
                             ElementNode ''shuffle-status'']\<rparr>"
    by (simp add: examplePage_def)
  have doc: "document ?env = examplePage" by (simp add: exampleEnv_def)
  have h7: "document ?env ''error-message''
       = Some \<lparr>classList = [], disabled = False, display = ''block'', childNodes = [TextNode ''old'']\<rparr>"
    using pm doc by simp
  have h8: "document ?env ''deck-card''
       = Some \<lparr>classList = [''card''], disabled = False, display = [],
               childNodes = [TextNode ''Deck'', ElementNode ''remaining-cards'',
                             ElementNode ''shuffle-status'']\<rparr>"
    using pc doc by simp
  have apart: "reached 1 examplePage (ElementNode ''error-message'')
        \<inter> {''remaining-cards'', ''shuffle-status'', ''refresh-btn''} = {}"
    by (simp add: examplePage_def)
  have old: "textContent 1 examplePage ''error-message'' = Some ''old''"
    by (simp add: textContent_def examplePage_def)
  note main = success_writes_only_stat_fields_button_and_flags [OF h1 h2 h3 h4 h5 h6 h7 h8]
  from main have "textContent 1 (finalDocument ?env) ''error-message'' = textContent 1 (document ?env) ''error-message''"
    using apart doc by simp
  with main h1 h3 pm apart old doc show ?thesis by simp
qed

end
